theory Spec2Isabelle
  imports Main
begin

section \<open>JavaScript values\<close>

text \<open>
  The middleware of \<^verbatim>\<open>src/index.js\<close> moves JavaScript values between a cookie and a
  per-request \<^verbatim>\<open>session\<close> variable. The values are modelled as a datatype:
  \<^item> text is a byte string holding the UTF-8 form of the JavaScript string, so that
    \<^verbatim>\<open>new Buffer(text)\<close> and \<^verbatim>\<open>buffer.toString('utf8')\<close> keep the bytes as they are
    (exact for well-formed text; for ASCII text a byte is a UTF-16 code unit);
  \<^item> a number \<open>JNum m e\<close> is the exact decimal \<open>m * 10 ^ e\<close> (the rounding of IEEE doubles
    is not modelled);
  \<^item> an object is the list of its own enumerable properties in enumeration order
    (prototypes, accessors and \<^verbatim>\<open>toJSON\<close> methods are not modelled);
  \<^item> \<open>JFun\<close> stands for any function value.
\<close>

datatype jsval =
    JUndefined
  | JNull
  | JBool bool
  | JNum int int
  | JStr string
  | JArr "jsval list"
  | JObj "(string \<times> jsval) list"
  | JFun

type_synonym props = "(string \<times> jsval) list"

datatype error =
    Error string   \<comment> \<open>\<^verbatim>\<open>new Error(message)\<close>\<close>
  | TypeError
  | SyntaxError
  | HostError      \<comment> \<open>an exception raised by the host's cookie utility\<close>

text \<open>\<^verbatim>\<open>!!v\<close>: the values that count as true in a condition.\<close>

fun truthy :: "jsval \<Rightarrow> bool" where
  "truthy JUndefined = False"
| "truthy JNull = False"
| "truthy (JBool b) = b"
| "truthy (JNum m e) = (m \<noteq> 0)"
| "truthy (JStr s) = (s \<noteq> [])"
| "truthy (JArr xs) = True"
| "truthy (JObj ps) = True"
| "truthy JFun = True"

text \<open>\<^verbatim>\<open>typeof v\<close>.\<close>

fun typeof :: "jsval \<Rightarrow> string" where
  "typeof JUndefined = ''undefined''"
| "typeof JNull = ''object''"
| "typeof (JBool b) = ''boolean''"
| "typeof (JNum m e) = ''number''"
| "typeof (JStr s) = ''string''"
| "typeof (JArr xs) = ''object''"
| "typeof (JObj ps) = ''object''"
| "typeof JFun = ''function''"

subsection \<open>Bytes and decimal digits\<close>

definition byte :: "nat \<Rightarrow> char" where
  "byte n = Char (odd n) (odd (n div 2)) (odd (n div 4)) (odd (n div 8))
                 (odd (n div 16)) (odd (n div 32)) (odd (n div 64)) (odd (n div 128))"

definition code :: "char \<Rightarrow> nat" where
  "code c = of_char c"

definition is_digit :: "char \<Rightarrow> bool" where
  "is_digit c = (48 \<le> code c \<and> code c \<le> 57)"

definition digit_val :: "char \<Rightarrow> int" where
  "digit_val c = int (code c) - 48"

definition digit_char :: "int \<Rightarrow> char" where
  "digit_char n = byte (48 + nat n)"

text \<open>The decimal digits of a number that is not negative, and the number of a digit string.\<close>

function digits :: "int \<Rightarrow> string" where
  "digits n = (if n < 10 then [digit_char n] else digits (n div 10) @ [digit_char (n mod 10)])"
  by pat_completeness auto
termination
  by (relation "measure nat") auto

declare digits.simps [simp del]

definition int_of_digits :: "string \<Rightarrow> int" where
  "int_of_digits ds = foldl (\<lambda>a c. 10 * a + digit_val c) 0 ds"

subsection \<open>Own properties in enumeration order\<close>

text \<open>
  A property name that is the canonical decimal form of an integer below \<open>2^32 - 1\<close> is an
  array index. JavaScript enumerates the array indices of an object first, in ascending
  order, and then the other names in the order in which they were created.
\<close>

definition array_index :: "string \<Rightarrow> int option" where
  "array_index k =
     (if k \<noteq> [] \<and> list_all is_digit k \<and> (k = ''0'' \<or> hd k \<noteq> CHR ''0'')
         \<and> int_of_digits k < 4294967295
      then Some (int_of_digits k) else None)"

fun insert_index :: "int \<Rightarrow> string \<Rightarrow> jsval \<Rightarrow> props \<Rightarrow> props" where
  "insert_index i k v [] = [(k, v)]"
| "insert_index i k v ((k', v') # ps) =
     (case array_index k' of
        Some j \<Rightarrow> if j < i then (k', v') # insert_index i k v ps else (k, v) # (k', v') # ps
      | None \<Rightarrow> (k, v) # (k', v') # ps)"

text \<open>\<^verbatim>\<open>obj[k] = v\<close> on a plain object: an existing property keeps its place.\<close>

definition put_prop :: "string \<Rightarrow> jsval \<Rightarrow> props \<Rightarrow> props" where
  "put_prop k v ps =
     (if k \<in> set (map fst ps) then map (\<lambda>(k', v'). if k' = k then (k', v) else (k', v')) ps
      else case array_index k of
             Some i \<Rightarrow> insert_index i k v ps
           | None \<Rightarrow> ps @ [(k, v)])"

text \<open>\<^verbatim>\<open>Object.keys(v)\<close> (ES2015: a primitive is converted to an object first).\<close>

fun own_keys :: "jsval \<Rightarrow> string list" where
  "own_keys (JObj ps) = map fst ps"
| "own_keys (JArr xs) = map (\<lambda>i. digits (int i)) [0..<length xs]"
| "own_keys (JStr s) = map (\<lambda>i. digits (int i)) [0..<length s]"
| "own_keys v = []"

text \<open>\<^verbatim>\<open>v[k]\<close> for an own key \<open>k\<close> of \<open>v\<close>.\<close>

fun get_prop :: "jsval \<Rightarrow> string \<Rightarrow> jsval" where
  "get_prop (JObj ps) k = (case map_of ps k of Some v \<Rightarrow> v | None \<Rightarrow> JUndefined)"
| "get_prop (JArr xs) k =
     (case array_index k of
        Some i \<Rightarrow> if i < int (length xs) then xs ! nat i else JUndefined
      | None \<Rightarrow> JUndefined)"
| "get_prop (JStr s) k =
     (case array_index k of
        Some i \<Rightarrow> if i < int (length s) then JStr [s ! nat i] else JUndefined
      | None \<Rightarrow> JUndefined)"
| "get_prop v k = JUndefined"

section \<open>Base64\<close>

text \<open>\<^verbatim>\<open>buffer.toString('base64')\<close>: the standard alphabet, padded with \<^verbatim>\<open>=\<close>.\<close>

definition b64_alphabet :: string where
  "b64_alphabet = ''ABCDEFGHIJKLMNOPQRSTUVWXYZabcdefghijklmnopqrstuvwxyz0123456789+/''"

definition b64_char :: "nat \<Rightarrow> char" where
  "b64_char n = b64_alphabet ! (n mod 64)"

fun b64_encode :: "string \<Rightarrow> string" where
  "b64_encode [] = []"
| "b64_encode [a] =
     [b64_char (code a div 4), b64_char (code a mod 4 * 16), CHR ''='', CHR ''='']"
| "b64_encode [a, b] =
     [b64_char (code a div 4), b64_char (code a mod 4 * 16 + code b div 16),
      b64_char (code b mod 16 * 4), CHR ''='']"
| "b64_encode (a # b # c # rest) =
     [b64_char (code a div 4), b64_char (code a mod 4 * 16 + code b div 16),
      b64_char (code b mod 16 * 4 + code c div 64), b64_char (code c mod 64)]
     @ b64_encode rest"

text \<open>
  \<^verbatim>\<open>new Buffer(string, 'base64')\<close> never fails: it reads the standard and the URL-safe
  alphabet, skips every other character and stops at the first \<^verbatim>\<open>=\<close>; a last group of
  two or three characters gives one or two bytes.
\<close>

definition unbase64 :: "char \<Rightarrow> nat option" where
  "unbase64 c =
     (let n = code c in
      if 65 \<le> n \<and> n \<le> 90 then Some (n - 65)
      else if 97 \<le> n \<and> n \<le> 122 then Some (n - 71)
      else if 48 \<le> n \<and> n \<le> 57 then Some (n + 4)
      else if c = CHR ''+'' \<or> c = CHR ''-'' then Some 62
      else if c = CHR ''/'' \<or> c = CHR ''_'' then Some 63
      else None)"

fun sextets :: "string \<Rightarrow> nat list" where
  "sextets [] = []"
| "sextets (c # cs) =
     (case unbase64 c of
        Some n \<Rightarrow> n # sextets cs
      | None \<Rightarrow> if c = CHR ''='' then [] else sextets cs)"

fun b64_bytes :: "nat list \<Rightarrow> string" where
  "b64_bytes (a # b # c # d # rest) =
     [byte (a * 4 + b div 16), byte (b mod 16 * 16 + c div 4), byte (c mod 4 * 64 + d)]
     @ b64_bytes rest"
| "b64_bytes [a, b, c] = [byte (a * 4 + b div 16), byte (b mod 16 * 16 + c div 4)]"
| "b64_bytes [a, b] = [byte (a * 4 + b div 16)]"
| "b64_bytes xs = []"

definition b64_decode :: "string \<Rightarrow> string" where
  "b64_decode s = b64_bytes (sextets s)"

section \<open>JSON\<close>

subsection \<open>\<^verbatim>\<open>JSON.stringify\<close>\<close>

text \<open>
  A number is written as ECMAScript's \<^verbatim>\<open>Number::toString\<close> does: with \<open>s\<close> the digits
  without trailing zeros, \<open>k\<close> their count and \<open>n\<close> the position of the decimal point.
\<close>

function strip_zeros :: "int \<Rightarrow> nat \<Rightarrow> int \<times> nat" where
  "strip_zeros s z =
     (if 0 < s \<and> s mod 10 = 0 then strip_zeros (s div 10) (Suc z) else (s, z))"
  by pat_completeness auto
termination
  by (relation "measure (\<lambda>(s, z). nat s)") auto

declare strip_zeros.simps [simp del]

definition exp_str :: "int \<Rightarrow> string" where
  "exp_str x = (if 0 \<le> x then ''+'' else ''-'') @ digits \<bar>x\<bar>"

definition num_str :: "int \<Rightarrow> int \<Rightarrow> string" where
  "num_str m e =
     (if m = 0 then ''0''
      else
        (if m < 0 then ''-'' else [])
        @ (let (s, z) = strip_zeros \<bar>m\<bar> 0;
               ds = digits s;
               k = int (length ds);
               n = k + e + int z
           in if k \<le> n \<and> n \<le> 21 then ds @ replicate (nat (n - k)) CHR ''0''
              else if 0 < n \<and> n \<le> 21 then take (nat n) ds @ ''.'' @ drop (nat n) ds
              else if - 6 < n \<and> n \<le> 0 then ''0.'' @ replicate (nat (- n)) CHR ''0'' @ ds
              else (if k = 1 then ds else [hd ds] @ ''.'' @ tl ds) @ ''e'' @ exp_str (n - 1)))"

definition hex_digit :: "nat \<Rightarrow> char" where
  "hex_digit n = ''0123456789abcdef'' ! (n mod 16)"

definition escape :: "char \<Rightarrow> string" where
  "escape c =
     (if c = CHR 0x22 then [CHR 0x5C, CHR 0x22]
      else if c = CHR 0x5C then [CHR 0x5C, CHR 0x5C]
      else if c = CHR 0x08 then [CHR 0x5C, CHR ''b'']
      else if c = CHR 0x0C then [CHR 0x5C, CHR ''f'']
      else if c = CHR 0x0A then [CHR 0x5C, CHR ''n'']
      else if c = CHR 0x0D then [CHR 0x5C, CHR ''r'']
      else if c = CHR 0x09 then [CHR 0x5C, CHR ''t'']
      else if code c < 32 then
        [CHR 0x5C, CHR ''u'', CHR ''0'', CHR ''0'', hex_digit (code c div 16), hex_digit (code c mod 16)]
      else [c])"

definition quote :: "string \<Rightarrow> string" where
  "quote s = CHR 0x22 # concat (map escape s) @ [CHR 0x22]"

fun join :: "string list \<Rightarrow> string" where
  "join [] = []"
| "join [x] = x"
| "join (x # y # ys) = x @ '','' @ join (y # ys)"

text \<open>
  \<^verbatim>\<open>JSON.stringify(v)\<close>; \<open>None\<close> is the result \<^verbatim>\<open>undefined\<close>. In an array
  \<^verbatim>\<open>undefined\<close> and functions are written as \<^verbatim>\<open>null\<close>, in an object such properties
  are left out.
\<close>

fun stringify :: "jsval \<Rightarrow> string option"
  and stringify_elems :: "jsval list \<Rightarrow> string list"
  and stringify_members :: "(string \<times> jsval) list \<Rightarrow> string list"
where
  "stringify JUndefined = None"
| "stringify JFun = None"
| "stringify JNull = Some ''null''"
| "stringify (JBool b) = Some (if b then ''true'' else ''false'')"
| "stringify (JNum m e) = Some (num_str m e)"
| "stringify (JStr s) = Some (quote s)"
| "stringify (JArr xs) = Some (''['' @ join (stringify_elems xs) @ '']'')"
| "stringify (JObj ps) = Some (''{'' @ join (stringify_members ps) @ ''}'')"
| "stringify_elems [] = []"
| "stringify_elems (x # xs) =
     (case stringify x of None \<Rightarrow> ''null'' | Some t \<Rightarrow> t) # stringify_elems xs"
| "stringify_members [] = []"
| "stringify_members ((k, v) # ps) =
     (case stringify v of
        None \<Rightarrow> stringify_members ps
      | Some t \<Rightarrow> (quote k @ '':'' @ t) # stringify_members ps)"

subsection \<open>\<^verbatim>\<open>JSON.parse\<close>: the tokens\<close>

datatype token = TLBrace | TRBrace | TLBrack | TRBrack | TColon | TComma | TVal jsval

definition is_space :: "char \<Rightarrow> bool" where
  "is_space c = (c = CHR 0x20 \<or> c = CHR 0x09 \<or> c = CHR 0x0A \<or> c = CHR 0x0D)"

definition hexval :: "char \<Rightarrow> nat option" where
  "hexval c =
     (let n = code c in
      if 48 \<le> n \<and> n \<le> 57 then Some (n - 48)
      else if 97 \<le> n \<and> n \<le> 102 then Some (n - 87)
      else if 65 \<le> n \<and> n \<le> 70 then Some (n - 55)
      else None)"

definition hex4 :: "char \<Rightarrow> char \<Rightarrow> char \<Rightarrow> char \<Rightarrow> nat option" where
  "hex4 a b c d =
     (case (hexval a, hexval b, hexval c, hexval d) of
        (Some x, Some y, Some z, Some w) \<Rightarrow> Some (x * 4096 + y * 256 + z * 16 + w)
      | _ \<Rightarrow> None)"

definition escape_char :: "char \<Rightarrow> char option" where
  "escape_char e =
     (if e = CHR 0x22 \<or> e = CHR 0x5C \<or> e = CHR ''/'' then Some e
      else if e = CHR ''b'' then Some (CHR 0x08)
      else if e = CHR ''f'' then Some (CHR 0x0C)
      else if e = CHR ''n'' then Some (CHR 0x0A)
      else if e = CHR ''r'' then Some (CHR 0x0D)
      else if e = CHR ''t'' then Some (CHR 0x09)
      else None)"

text \<open>
  The content of a string literal, read up to its closing quote: a byte of the text as it
  is, or the UTF-16 code unit of a \<^verbatim>\<open>\uXXXX\<close> escape.
\<close>

datatype item = Raw char | Esc nat

fun lex_string :: "string \<Rightarrow> (item list \<times> string) option" where
  "lex_string [] = None"
| "lex_string (c # cs) =
     (if c = CHR 0x22 then Some ([], cs)
      else if c = CHR 0x5C then
        (case cs of
           [] \<Rightarrow> None
         | e # r \<Rightarrow>
             if e = CHR ''u'' then
               (case r of
                  h1 # h2 # h3 # h4 # r' \<Rightarrow>
                    (case hex4 h1 h2 h3 h4 of
                       None \<Rightarrow> None
                     | Some u \<Rightarrow> map_option (\<lambda>(us, t). (Esc u # us, t)) (lex_string r'))
                | _ \<Rightarrow> None)
             else
               (case escape_char e of
                  None \<Rightarrow> None
                | Some x \<Rightarrow> map_option (\<lambda>(us, t). (Raw x # us, t)) (lex_string r)))
      else if code c < 32 then None
      else map_option (\<lambda>(us, t). (Raw c # us, t)) (lex_string cs))"

text \<open>The UTF-8 bytes of a code point; a surrogate pair of escapes is one code point.\<close>

definition utf8 :: "nat \<Rightarrow> string" where
  "utf8 cp =
     (if cp < 128 then [byte cp]
      else if cp < 2048 then [byte (192 + cp div 64), byte (128 + cp mod 64)]
      else if cp < 65536 then
        [byte (224 + cp div 4096), byte (128 + cp div 64 mod 64), byte (128 + cp mod 64)]
      else
        [byte (240 + cp div 262144), byte (128 + cp div 4096 mod 64),
         byte (128 + cp div 64 mod 64), byte (128 + cp mod 64)])"

fun units_to_utf8 :: "item list \<Rightarrow> string" where
  "units_to_utf8 [] = []"
| "units_to_utf8 (Raw c # us) = c # units_to_utf8 us"
| "units_to_utf8 (Esc hi # Esc lo # us) =
     (if 55296 \<le> hi \<and> hi < 56320 \<and> 56320 \<le> lo \<and> lo < 57344
      then utf8 (65536 + (hi - 55296) * 1024 + (lo - 56320)) @ units_to_utf8 us
      else utf8 hi @ units_to_utf8 (Esc lo # us))"
| "units_to_utf8 (Esc u # us) = utf8 u @ units_to_utf8 us"

definition frac_part :: "string \<Rightarrow> (string \<times> string) option" where
  "frac_part cs =
     (if cs \<noteq> [] \<and> hd cs = CHR ''.'' then
        (let fp = takeWhile is_digit (tl cs)
         in if fp = [] then None else Some (fp, dropWhile is_digit (tl cs)))
      else Some ([], cs))"

definition exp_part :: "string \<Rightarrow> (int \<times> string) option" where
  "exp_part cs =
     (if cs \<noteq> [] \<and> (hd cs = CHR ''e'' \<or> hd cs = CHR ''E'') then
        (let r = tl cs;
             neg = (r \<noteq> [] \<and> hd r = CHR ''-'');
             r' = (if r \<noteq> [] \<and> (hd r = CHR ''-'' \<or> hd r = CHR ''+'') then tl r else r);
             ds = takeWhile is_digit r'
         in if ds = [] then None
            else Some (if neg then - int_of_digits ds else int_of_digits ds,
                       dropWhile is_digit r'))
      else Some (0, cs))"

text \<open>
  A number literal: an optional minus sign, an integer part without a leading zero, an
  optional fraction and an optional exponent.
\<close>

definition lex_number :: "string \<Rightarrow> (jsval \<times> string) option" where
  "lex_number cs =
     (let neg = (cs \<noteq> [] \<and> hd cs = CHR ''-'');
          cs1 = (if neg then tl cs else cs);
          ip = takeWhile is_digit cs1
      in if ip = [] \<or> (hd ip = CHR ''0'' \<and> 1 < length ip) then None
         else
           (case frac_part (dropWhile is_digit cs1) of
              None \<Rightarrow> None
            | Some (fp, cs3) \<Rightarrow>
                (case exp_part cs3 of
                   None \<Rightarrow> None
                 | Some (ex, cs4) \<Rightarrow>
                     Some (JNum (if neg then - int_of_digits (ip @ fp) else int_of_digits (ip @ fp))
                                (ex - int (length fp)),
                           cs4))))"

lemma lex_string_length: "lex_string cs = Some (us, r) \<Longrightarrow> length r \<le> length cs"
proof (induction cs arbitrary: us r rule: lex_string.induct)
  case 1
  then show ?case by simp
next
  case (2 c cs)
  then show ?case
    by (fastforce split: if_splits list.splits option.splits)
qed

lemma frac_part_length: "frac_part cs = Some (fp, r) \<Longrightarrow> length r \<le> length cs"
  by (auto simp: frac_part_def Let_def split: if_splits
      intro: le_trans [OF length_dropWhile_le])

lemma exp_part_length: "exp_part cs = Some (ex, r) \<Longrightarrow> length r \<le> length cs"
  by (auto simp: exp_part_def Let_def split: if_splits
      intro: le_trans [OF length_dropWhile_le])

lemma dropWhile_shorter: "takeWhile P xs \<noteq> [] \<Longrightarrow> length (dropWhile P xs) < length xs"
  by (cases xs) (auto simp: le_imp_less_Suc length_dropWhile_le split: if_splits)

lemma lex_number_length:
  assumes "lex_number cs = Some (v, r)"
  shows "length r < length cs"
proof -
  define cs1 where "cs1 = (if cs \<noteq> [] \<and> hd cs = CHR ''-'' then tl cs else cs)"
  from assms have ip: "takeWhile is_digit cs1 \<noteq> []"
    by (auto simp: lex_number_def Let_def cs1_def split: if_splits)
  from assms obtain fp cs3 ex where
    f: "frac_part (dropWhile is_digit cs1) = Some (fp, cs3)" and e: "exp_part cs3 = Some (ex, r)"
    by (auto simp: lex_number_def Let_def cs1_def split: if_splits option.splits)
  have "length r \<le> length cs3" using e by (rule exp_part_length)
  also have "\<dots> \<le> length (dropWhile is_digit cs1)" using f by (rule frac_part_length)
  also have "\<dots> < length cs1" using ip by (rule dropWhile_shorter)
  also have "\<dots> \<le> length cs" by (simp add: cs1_def)
  finally show ?thesis .
qed

function lex_json :: "string \<Rightarrow> token list option" where
  "lex_json [] = Some []"
| "lex_json (c # cs) =
     (if is_space c then lex_json cs
      else if c = CHR ''{'' then map_option ((#) TLBrace) (lex_json cs)
      else if c = CHR ''}'' then map_option ((#) TRBrace) (lex_json cs)
      else if c = CHR ''['' then map_option ((#) TLBrack) (lex_json cs)
      else if c = CHR '']'' then map_option ((#) TRBrack) (lex_json cs)
      else if c = CHR '':'' then map_option ((#) TColon) (lex_json cs)
      else if c = CHR '','' then map_option ((#) TComma) (lex_json cs)
      else if c = CHR 0x22 then
        (case lex_string cs of
           None \<Rightarrow> None
         | Some (us, r) \<Rightarrow> map_option ((#) (TVal (JStr (units_to_utf8 us)))) (lex_json r))
      else if c = CHR ''t'' then
        (if take 3 cs = ''rue'' then map_option ((#) (TVal (JBool True))) (lex_json (drop 3 cs))
         else None)
      else if c = CHR ''f'' then
        (if take 4 cs = ''alse'' then map_option ((#) (TVal (JBool False))) (lex_json (drop 4 cs))
         else None)
      else if c = CHR ''n'' then
        (if take 3 cs = ''ull'' then map_option ((#) (TVal JNull)) (lex_json (drop 3 cs))
         else None)
      else if c = CHR ''-'' \<or> is_digit c then
        (case lex_number (c # cs) of
           None \<Rightarrow> None
         | Some (v, r) \<Rightarrow> map_option ((#) (TVal v)) (lex_json r))
      else None)"
  by pat_completeness auto
termination
proof (relation "measure length")
  fix c cs x2 us r
  assume "lex_string cs = Some x2" "(us, r) = x2"
  then have "length r \<le> length cs" by (auto dest: lex_string_length)
  then show "(r, c # cs) \<in> measure length" by simp
next
  fix c cs x2 v r
  assume "lex_number (c # cs) = Some x2" "(v, r) = x2"
  then have "length r < length (c # cs)" by (auto dest: lex_number_length)
  then show "(r, c # cs) \<in> measure length" by simp
qed auto

declare lex_json.simps [simp del]

subsection \<open>\<^verbatim>\<open>JSON.parse\<close>: the grammar\<close>

text \<open>
  The tokens drive a stack machine. A frame is an array or an object under construction:
  the elements read so far, or the properties read so far and the name whose value is
  being read. A repeated name overwrites the earlier value.
\<close>

datatype frame = FArr "jsval list" | FObj props string

datatype pstate =
    PValue "frame list"             \<comment> \<open>a value must follow\<close>
  | PArrStart "frame list"          \<comment> \<open>after \<^verbatim>\<open>[\<close>: a value or \<^verbatim>\<open>]\<close>\<close>
  | PObjStart "frame list"          \<comment> \<open>after \<^verbatim>\<open>{\<close>: a name or \<^verbatim>\<open>}\<close>\<close>
  | PName props "frame list"        \<comment> \<open>after a comma in an object: a name must follow\<close>
  | PColon props string "frame list"  \<comment> \<open>after a name: a colon must follow\<close>
  | PArrNext "jsval list" "frame list"  \<comment> \<open>after an element: a comma or \<^verbatim>\<open>]\<close>\<close>
  | PObjNext props "frame list"     \<comment> \<open>after a property: a comma or \<^verbatim>\<open>}\<close>\<close>
  | PDone jsval
  | PFail

fun deliver :: "jsval \<Rightarrow> frame list \<Rightarrow> pstate" where
  "deliver v [] = PDone v"
| "deliver v (FArr xs # st) = PArrNext (xs @ [v]) st"
| "deliver v (FObj ps k # st) = PObjNext (put_prop k v ps) st"

fun value_start :: "frame list \<Rightarrow> token \<Rightarrow> pstate" where
  "value_start st (TVal v) = deliver v st"
| "value_start st TLBrack = PArrStart st"
| "value_start st TLBrace = PObjStart st"
| "value_start st t = PFail"

fun pstep :: "pstate \<Rightarrow> token \<Rightarrow> pstate" where
  "pstep (PValue st) t = value_start st t"
| "pstep (PArrStart st) t =
     (if t = TRBrack then deliver (JArr []) st else value_start (FArr [] # st) t)"
| "pstep (PObjStart st) t =
     (case t of
        TRBrace \<Rightarrow> deliver (JObj []) st
      | TVal (JStr k) \<Rightarrow> PColon [] k st
      | _ \<Rightarrow> PFail)"
| "pstep (PName ps st) t = (case t of TVal (JStr k) \<Rightarrow> PColon ps k st | _ \<Rightarrow> PFail)"
| "pstep (PColon ps k st) t = (if t = TColon then PValue (FObj ps k # st) else PFail)"
| "pstep (PArrNext xs st) t =
     (case t of
        TComma \<Rightarrow> PValue (FArr xs # st)
      | TRBrack \<Rightarrow> deliver (JArr xs) st
      | _ \<Rightarrow> PFail)"
| "pstep (PObjNext ps st) t =
     (case t of
        TComma \<Rightarrow> PName ps st
      | TRBrace \<Rightarrow> deliver (JObj ps) st
      | _ \<Rightarrow> PFail)"
| "pstep (PDone v) t = PFail"
| "pstep PFail t = PFail"

text \<open>\<^verbatim>\<open>JSON.parse(text)\<close>: the value, or a \<^verbatim>\<open>SyntaxError\<close>.\<close>

definition JSON_parse :: "string \<Rightarrow> error + jsval" where
  "JSON_parse text =
     (case lex_json text of
        None \<Rightarrow> Inl SyntaxError
      | Some ts \<Rightarrow>
          (case foldl pstep (PValue []) ts of
             PDone v \<Rightarrow> Inr v
           | _ \<Rightarrow> Inl SyntaxError))"

section \<open>The cookie value\<close>

text \<open>
  \<^verbatim>\<open>decode\<close> of \<^verbatim>\<open>src/index.js\<close>: the body of its \<^verbatim>\<open>try\<close> block, and the function
  with the empty \<^verbatim>\<open>catch\<close>, which returns \<^verbatim>\<open>undefined\<close> after an exception.
\<close>

definition decode_body :: "string \<Rightarrow> error + jsval" where
  "decode_body string = JSON_parse (b64_decode string)"

definition decode :: "string \<Rightarrow> error + jsval" where
  "decode string = (case decode_body string of Inl e \<Rightarrow> Inr JUndefined | Inr v \<Rightarrow> Inr v)"

text \<open>
  \<^verbatim>\<open>encode\<close> of \<^verbatim>\<open>src/index.js\<close>. \<^verbatim>\<open>new Buffer(undefined)\<close> raises a
  \<^verbatim>\<open>TypeError\<close>.
\<close>

definition encode :: "jsval \<Rightarrow> error + string" where
  "encode body =
     (case stringify body of None \<Rightarrow> Inl TypeError | Some text \<Rightarrow> Inr (b64_encode text))"

section \<open>The session object\<close>

text \<open>
  \<^verbatim>\<open>function Session (obj)\<close>. \<^verbatim>\<open>isNew\<close> is defined with a value only, so it is
  neither writable nor enumerable; the own enumerable properties are \<open>props\<close>. The file
  is in strict mode, where the assignment \<^verbatim>\<open>this[key] = obj[key]\<close> raises a
  \<^verbatim>\<open>TypeError\<close> for the key \<^verbatim>\<open>isNew\<close>; for the key \<^verbatim>\<open>__proto__\<close> it runs the
  prototype setter of \<^verbatim>\<open>Object.prototype\<close> and creates no own property.
\<close>

record session =
  isNew :: bool
  props :: props

fun assign_keys :: "jsval \<Rightarrow> string list \<Rightarrow> props \<Rightarrow> error + props" where
  "assign_keys obj [] ps = Inr ps"
| "assign_keys obj (key # keys) ps =
     (if key = ''isNew'' then Inl TypeError
      else if key = ''__proto__'' then assign_keys obj keys ps
      else assign_keys obj keys (put_prop key (get_prop obj key) ps))"

definition Session :: "jsval \<Rightarrow> error + session" where
  "Session obj =
     (if truthy obj then
        (case assign_keys obj (own_keys obj) [] of
           Inl e \<Rightarrow> Inl e
         | Inr ps \<Rightarrow> Inr \<lparr>isNew = \<not> truthy obj, props = ps\<rparr>)
      else Inr \<lparr>isNew = \<not> truthy obj, props = []\<rparr>)"

section \<open>Option objects\<close>

text \<open>
  The configuration object and the \<^verbatim>\<open>sessionOptions\<close> of the requests are objects that
  the code shares by reference, so they live on a heap: an object has its own properties
  and a link to its prototype. Reading a property follows the links.
\<close>

type_synonym addr = nat

record obj =
  own :: props
  proto :: "addr option"

type_synonym heap = "obj list"

fun chain_get :: "nat \<Rightarrow> heap \<Rightarrow> addr \<Rightarrow> string \<Rightarrow> jsval" where
  "chain_get 0 h a k = JUndefined"
| "chain_get (Suc n) h a k =
     (if a < length h then
        (case map_of (own (h ! a)) k of
           Some v \<Rightarrow> v
         | None \<Rightarrow> (case proto (h ! a) of Some p \<Rightarrow> chain_get n h p k | None \<Rightarrow> JUndefined))
      else JUndefined)"

text \<open>\<^verbatim>\<open>o[k]\<close> for the object at \<open>a\<close>; a chain is never longer than the heap.\<close>

definition get_field :: "heap \<Rightarrow> addr \<Rightarrow> string \<Rightarrow> jsval" where
  "get_field h a k = chain_get (length h) h a k"

text \<open>
  \<^verbatim>\<open>o[k] = v\<close> for the object at \<open>a\<close>: the property becomes an own property of that
  object. The name \<^verbatim>\<open>__proto__\<close> sets the prototype instead: to nothing for
  \<^verbatim>\<open>null\<close>, to a new object for an object value, and not at all for another value.
\<close>

definition set_field :: "heap \<Rightarrow> addr \<Rightarrow> string \<Rightarrow> jsval \<Rightarrow> heap" where
  "set_field h a k v =
     (if a < length h then
        (if k = ''__proto__'' then
           (case v of
              JNull \<Rightarrow> h[a := (h ! a)\<lparr>proto := None\<rparr>]
            | JObj ps \<Rightarrow> h[a := (h ! a)\<lparr>proto := Some (length h)\<rparr>] @ [\<lparr>own = ps, proto = None\<rparr>]
            | _ \<Rightarrow> h)
         else h[a := (h ! a)\<lparr>own := put_prop k v (own (h ! a))\<rparr>])
      else h)"

section \<open>The middleware\<close>

text \<open>
  The host's cookie utility: \<^verbatim>\<open>cookies.get(name, options)\<close> gives the value of a cookie
  that passes the checks of the options, or \<^verbatim>\<open>undefined\<close>; \<^verbatim>\<open>cookies.set(name, value,
  options)\<close> may raise an exception (as for a secure cookie on a connection that is not
  secure). Both see the options as they read at the time of the call.
\<close>

type_synonym options_view = "string \<Rightarrow> jsval"

record host =
  cookies_get :: "jsval \<Rightarrow> options_view \<Rightarrow> string option"
  cookies_set :: "jsval \<Rightarrow> string \<Rightarrow> options_view \<Rightarrow> error option"

text \<open>What \<^verbatim>\<open>toaCookieSession\<close> leaves in its closure.\<close>

record middleware =
  options :: addr
  sessionKey :: jsval

text \<open>
  \<^verbatim>\<open>toaCookieSession (options)\<close>, for an argument that is an object or \<^verbatim>\<open>undefined\<close>.
  The three defaults are written into the object itself.
\<close>

definition toaCookieSession :: "addr option \<Rightarrow> heap \<Rightarrow> middleware \<times> heap" where
  "toaCookieSession arg h =
     (let (opts, h0) = (case arg of
                          Some a \<Rightarrow> (a, h)
                        | None \<Rightarrow> (length h, h @ [\<lparr>own = [], proto = None\<rparr>]));
          h1 = set_field h0 opts ''overwrite'' (JBool (get_field h0 opts ''overwrite'' \<noteq> JBool False));
          h2 = set_field h1 opts ''httpOnly'' (JBool (get_field h1 opts ''httpOnly'' \<noteq> JBool False));
          h3 = set_field h2 opts ''signed'' (JBool (get_field h2 opts ''signed'' \<noteq> JBool False));
          name = get_field h3 opts ''name''
      in (\<lparr>options = opts, sessionKey = (if truthy name then name else JStr ''toa:sess'')\<rparr>, h3))"

text \<open>
  The closure variable \<^verbatim>\<open>session\<close> holds a plain value (\<^verbatim>\<open>false\<close> at first) or a
  \<^verbatim>\<open>Session\<close> object.
\<close>

datatype session_var = SVal jsval | SObj session

text \<open>
  The state of one request: the variable \<^verbatim>\<open>session\<close>, the address of
  \<^verbatim>\<open>this.sessionOptions\<close>, the calls of \<^verbatim>\<open>cookies.set\<close> made so far (name, value
  and options) and the number of calls of the callback of \<^verbatim>\<open>onPreEnd\<close>.
\<close>

record ctx =
  session :: session_var
  sessionOptions :: addr
  cookies_set_calls :: "(jsval \<times> string \<times> options_view) list"
  cb_calls :: nat

text \<open>
  \<^verbatim>\<open>cookieSession\<close>: \<^verbatim>\<open>session = false\<close> and
  \<^verbatim>\<open>this.sessionOptions = Object.create(options)\<close>.
\<close>

definition cookieSession :: "middleware \<Rightarrow> heap \<Rightarrow> ctx \<times> heap" where
  "cookieSession mw h =
     (\<lparr>session = SVal (JBool False), sessionOptions = length h, cookies_set_calls = [],
       cb_calls = 0\<rparr>,
      h @ [\<lparr>own = [], proto = Some (options mw)\<rparr>])"

text \<open>
  The getter of \<^verbatim>\<open>this.session\<close>. Its first statement has stored the result of
  \<^verbatim>\<open>cookies.get\<close> in the variable when the second one raises an exception.
\<close>

definition session_get ::
  "host \<Rightarrow> middleware \<Rightarrow> heap \<Rightarrow> ctx \<Rightarrow> ctx \<times> (error + session_var)" where
  "session_get host mw h c =
     (if session c = SVal (JBool False) then
        (let got = (case cookies_get host (sessionKey mw) (get_field h (sessionOptions c)) of
                      None \<Rightarrow> JUndefined
                    | Some string \<Rightarrow> JStr string);
             c1 = c\<lparr>session := SVal got\<rparr>
         in case (case got of
                    JStr string \<Rightarrow> if truthy got then decode string else Inr got
                  | _ \<Rightarrow> Inr got) of
              Inl e \<Rightarrow> (c1, Inl e)
            | Inr obj \<Rightarrow>
                (case Session obj of
                   Inl e \<Rightarrow> (c1, Inl e)
                 | Inr s \<Rightarrow> (c1\<lparr>session := SObj s\<rparr>, Inr (SObj s))))
      else (c, Inr (session c)))"

text \<open>The setter of \<^verbatim>\<open>this.session\<close>.\<close>

definition session_set :: "jsval \<Rightarrow> ctx \<Rightarrow> ctx \<times> (error + unit)" where
  "session_set val c =
     (if val = JNull \<or> val = JUndefined then (c\<lparr>session := SVal JNull\<rparr>, Inr ())
      else if typeof val = ''object'' then
        (case Session val of
           Inl e \<Rightarrow> (c, Inl e)
         | Inr s \<Rightarrow> (c\<lparr>session := SObj s\<rparr>, Inr ()))
      else (c, Inl (Error ''session can only be set as null or an object.'')))"

text \<open>What \<^verbatim>\<open>JSON.stringify\<close> sees of the variable: the own enumerable properties.\<close>

fun body_of :: "session_var \<Rightarrow> jsval" where
  "body_of (SVal v) = v"
| "body_of (SObj s) = JObj (props s)"

text \<open>The callback of \<^verbatim>\<open>onPreEnd\<close> is counted.\<close>

definition cb :: "ctx \<Rightarrow> ctx \<times> (error + unit)" where
  "cb c = (c\<lparr>cb_calls := Suc (cb_calls c)\<rparr>, Inr ())"

text \<open>\<^verbatim>\<open>this.onPreEnd\<close>.\<close>

definition onPreEnd :: "host \<Rightarrow> middleware \<Rightarrow> heap \<Rightarrow> ctx \<Rightarrow> ctx \<times> (error + unit)" where
  "onPreEnd host mw h c =
     (if session c \<noteq> SVal (JBool False) then
        (case (if session c = SVal JNull \<or> session c = SVal JUndefined then Inr []
               else encode (body_of (session c))) of
           Inl e \<Rightarrow> (c, Inl e)
         | Inr v \<Rightarrow>
             (let c1 = c\<lparr>cookies_set_calls :=
                          cookies_set_calls c @ [(sessionKey mw, v, get_field h (sessionOptions c))]\<rparr>
              in case cookies_set host (sessionKey mw) v (get_field h (sessionOptions c)) of
                   Some e \<Rightarrow> (c1, Inl e)
                 | None \<Rightarrow> cb c1))
      else cb c)"

section \<open>The request handler\<close>

text \<open>
  What a handler (strict-mode code, as the tests are) can do with the two properties that
  the middleware gives it:
  \<^item> \<open>Read\<close>: evaluate \<^verbatim>\<open>this.session\<close>;
  \<^item> \<open>Assign v\<close>: \<^verbatim>\<open>this.session = v\<close>;
  \<^item> \<open>PutField k v\<close>: \<^verbatim>\<open>this.session[k] = v\<close>, which reads the property and then
    stores into the object that it got;
  \<^item> \<open>SetOption k v\<close>: \<^verbatim>\<open>this.sessionOptions[k] = v\<close>;
  \<^item> \<open>Try a\<close>: \<^verbatim>\<open>try { a } catch (e) {}\<close>.
\<close>

datatype action =
    Read
  | Assign jsval
  | PutField string jsval
  | SetOption string jsval
  | Try action

text \<open>Storing into the value that the getter returned.\<close>

fun store_field :: "string \<Rightarrow> jsval \<Rightarrow> ctx \<Rightarrow> session_var \<Rightarrow> ctx \<times> (error + unit)" where
  "store_field k v c (SObj s) =
     (if k = ''isNew'' then (c, Inl TypeError)
      else if k = ''__proto__'' then (c, Inr ())
      else (c\<lparr>session := SObj (s\<lparr>props := put_prop k v (props s)\<rparr>)\<rparr>, Inr ()))"
| "store_field k v c (SVal x) = (c, Inl TypeError)"

fun step :: "host \<Rightarrow> middleware \<Rightarrow> ctx \<times> heap \<Rightarrow> action \<Rightarrow> (ctx \<times> heap) \<times> (error + unit)" where
  "step host mw (c, h) Read =
     (case session_get host mw h c of
        (c', Inl e) \<Rightarrow> ((c', h), Inl e)
      | (c', Inr r) \<Rightarrow> ((c', h), Inr ()))"
| "step host mw (c, h) (Assign v) =
     (case session_set v c of (c', r) \<Rightarrow> ((c', h), r))"
| "step host mw (c, h) (PutField k v) =
     (case session_get host mw h c of
        (c', Inl e) \<Rightarrow> ((c', h), Inl e)
      | (c', Inr target) \<Rightarrow> (case store_field k v c' target of (c'', r) \<Rightarrow> ((c'', h), r)))"
| "step host mw (c, h) (SetOption k v) = ((c, set_field h (sessionOptions c) k v), Inr ())"
| "step host mw (c, h) (Try a) = (fst (step host mw (c, h) a), Inr ())"

text \<open>A handler runs its actions in order; an exception that it does not catch ends it.\<close>

fun run :: "host \<Rightarrow> middleware \<Rightarrow> action list \<Rightarrow> ctx \<times> heap \<Rightarrow> (ctx \<times> heap) \<times> (error + unit)" where
  "run host mw [] st = (st, Inr ())"
| "run host mw (a # as) st =
     (case step host mw st a of
        (st', Inl e) \<Rightarrow> (st', Inl e)
      | (st', Inr u) \<Rightarrow> run host mw as st')"



text \<open>A request: the middleware, the handler, and the hook whatever the handler did.\<close>

definition request :: "host \<Rightarrow> middleware \<Rightarrow> action list \<Rightarrow> heap \<Rightarrow> ctx \<times> (error + unit)" where
  "request host mw as h =
     (case run host mw as (cookieSession mw h) of
        ((c, h'), r) \<Rightarrow> onPreEnd host mw h' c)"

section \<open>Well-formed objects\<close>




section \<open>Values that JSON carries\<close>





definition ends_value :: "string \<Rightarrow> bool" where
  "ends_value r = (r = [] \<or> hd r = CHR '','' \<or> hd r = CHR '']'' \<or> hd r = CHR ''}'')"

section \<open>Reachable states and sample requests\<close>

text \<open>
  The values that the variable \<^verbatim>\<open>session\<close> takes: \<^verbatim>\<open>false\<close>, \<^verbatim>\<open>null\<close>, a
  \<^verbatim>\<open>Session\<close>, or the cookie text that the getter left there when the constructor
  raised an exception.
\<close>

fun wf_var :: "session_var \<Rightarrow> bool" where
  "wf_var (SObj s) = True"
| "wf_var (SVal (JBool b)) = (\<not> b)"
| "wf_var (SVal JNull) = True"
| "wf_var (SVal (JStr s)) = (s \<noteq> [])"
| "wf_var (SVal v) = False"

text \<open>A host without an incoming cookie, and one that sends the cookie value \<open>s\<close>.\<close>

definition quiet_host :: host where
  "quiet_host = \<lparr>cookies_get = (\<lambda>name opts. None), cookies_set = (\<lambda>name v opts. None)\<rparr>"

definition cookie_host :: "string \<Rightarrow> host" where
  "cookie_host s = \<lparr>cookies_get = (\<lambda>name opts. Some s), cookies_set = (\<lambda>name v opts. None)\<rparr>"


text \<open>The middleware made without options, and the heap that it leaves.\<close>

definition default_mw :: middleware where
  "default_mw = fst (toaCookieSession None [])"

definition default_heap :: heap where
  "default_heap = snd (toaCookieSession None [])"

text \<open>The name and the value of each call of \<^verbatim>\<open>cookies.set\<close>.\<close>

definition cookies_written :: "ctx \<Rightarrow> (jsval \<times> string) list" where
  "cookies_written c = map (\<lambda>(name, v, opts). (name, v)) (cookies_set_calls c)"

text \<open>The cookie value that encodes the session \<^verbatim>\<open>{"message":"hi"}\<close>.\<close>

definition hi_cookie :: string where
  "hi_cookie = ''eyJtZXNzYWdlIjoiaGkifQ==''"



text \<open>
  The middleware made with the options \<^verbatim>\<open>{maxAge: 3600000, name: 'my.session'}\<close>, and
  its heap.
\<close>

definition maxage_mw :: middleware where
  "maxage_mw =
     fst (toaCookieSession (Some 0)
            [\<lparr>own = [(''maxAge'', JNum 3600000 0), (''name'', JStr ''my.session'')], proto = None\<rparr>])"

definition maxage_heap :: heap where
  "maxage_heap =
     snd (toaCookieSession (Some 0)
            [\<lparr>own = [(''maxAge'', JNum 3600000 0), (''name'', JStr ''my.session'')], proto = None\<rparr>])"

section \<open>Properties of the session variable\<close>

lemma session_get_frame:
  "session_get host mw h c = (c', r) \<Longrightarrow>
     sessionOptions c' = sessionOptions c \<and> cookies_set_calls c' = cookies_set_calls c
     \<and> cb_calls c' = cb_calls c"
  by (auto simp: session_get_def Let_def split: if_splits sum.splits option.splits jsval.splits)

lemma session_get_touched:
  "session_get host mw h c = (c', r) \<Longrightarrow> session c' \<noteq> SVal (JBool False)"
  by (auto simp: session_get_def Let_def split: if_splits sum.splits option.splits jsval.splits)

lemma Session_falsy: "\<not> truthy obj \<Longrightarrow> Session obj = Inr \<lparr>isNew = True, props = []\<rparr>"
  by (simp add: Session_def)

lemma decode_total: "\<exists>v. decode s = Inr v"
  by (simp add: decode_def split: sum.splits)

lemma session_get_wf:
  "session_get host mw h c = (c', r) \<Longrightarrow> wf_var (session c) \<Longrightarrow> wf_var (session c')"
  using decode_total
  by (auto simp: session_get_def Let_def Session_falsy
      split: if_splits sum.splits option.splits jsval.splits)

lemma session_set_frame:
  "session_set v c = (c', r) \<Longrightarrow>
     sessionOptions c' = sessionOptions c \<and> cookies_set_calls c' = cookies_set_calls c
     \<and> cb_calls c' = cb_calls c"
  by (auto simp: session_set_def split: if_splits sum.splits)



lemma store_field_frame:
  "store_field k v c t = (c', r) \<Longrightarrow>
     sessionOptions c' = sessionOptions c \<and> cookies_set_calls c' = cookies_set_calls c
     \<and> cb_calls c' = cb_calls c"
  by (cases t) (auto split: if_splits)



lemma step_frame:
  "step host mw (c, h) a = ((c', h'), r) \<Longrightarrow>
     sessionOptions c' = sessionOptions c \<and> cookies_set_calls c' = cookies_set_calls c
     \<and> cb_calls c' = cb_calls c"
proof (induction a arbitrary: c' h' r)
  case Read
  then show ?case by (auto split: prod.splits sum.splits dest: session_get_frame)
next
  case (Assign v)
  then show ?case by (auto split: prod.splits dest: session_set_frame)
next
  case (PutField k v)
  then show ?case
    by (auto split: prod.splits sum.splits dest!: session_get_frame store_field_frame)
next
  case (SetOption k v)
  then show ?case by auto
next
  case (Try a)
  then show ?case by (cases "step host mw (c, h) a") auto
qed






lemma encode_wf_var:
  "wf_var x \<Longrightarrow> \<exists>t. stringify (body_of x) = Some t \<and> encode (body_of x) = Inr (b64_encode t)"
  by (cases x rule: wf_var.cases) (auto simp: encode_def)

lemma default_mw_eq: "default_mw = \<lparr>options = 0, sessionKey = JStr ''toa:sess''\<rparr>"
  unfolding default_mw_def by code_simp

lemma default_heap_eq:
  "default_heap =
     [\<lparr>own = [(''overwrite'', JBool True), (''httpOnly'', JBool True), (''signed'', JBool True)],
       proto = None\<rparr>]"
  unfolding default_heap_def by code_simp

lemma encode_empty: "encode (JObj []) = Inr ''e30=''"
  by code_simp






lemma session_get_again:
  "session c \<noteq> SVal (JBool False) \<Longrightarrow> session_get host mw h c = (c, Inr (session c))"
  by (simp add: session_get_def)

lemma run_reads_again:
  "session c \<noteq> SVal (JBool False) \<Longrightarrow> run host mw (replicate n Read) (c, h) = ((c, h), Inr ())"
  by (induction n) (simp_all add: session_get_again)

lemma session_get_first:
  "session c = SVal (JBool False) \<Longrightarrow> session_get host mw h c = (c', r) \<Longrightarrow>
     (\<exists>s. session c' = SObj s) \<or> (\<exists>t. t \<noteq> [] \<and> session c' = SVal (JStr t))"
  using decode_total
  by (auto simp: session_get_def Let_def Session_falsy
      split: if_splits sum.splits option.splits jsval.splits)

lemma run_reads:
  "run host mw (replicate (Suc n) Read) (c, h)
     = ((fst (session_get host mw h c), h),
        (case snd (session_get host mw h c) of Inl e \<Rightarrow> Inl e | Inr x \<Rightarrow> Inr ()))"
proof (cases "session_get host mw h c")
  case (Pair c1 r1)
  then have "session c1 \<noteq> SVal (JBool False)" by (rule session_get_touched)
  then show ?thesis using Pair by (cases r1) (simp_all add: run_reads_again)
qed

text \<open>
  C2. A handler that only reads the session property, once or more, leaves in the variable
  what the first read loaded, and the hook writes the encoding of that value back: nothing
  compares it with the incoming cookie. With no incoming cookie the first read loads a new
  empty session, and the hook writes the encoding of \<^verbatim>\<open>{}\<close>.
\<close>

theorem read_only_request_sets_cookie:
  fixes host mw h n
  defines "c0 \<equiv> fst (cookieSession mw h)" and "h0 \<equiv> snd (cookieSession mw h)"
  defines "loaded \<equiv> fst (session_get host mw h0 c0)"
  shows "fst (run host mw (replicate (Suc n) Read) (c0, h0)) = (loaded, h0)
    \<and> (\<exists>v. encode (body_of (session loaded)) = Inr v
          \<and> cookies_set_calls (fst (onPreEnd host mw h0 loaded))
              = [(sessionKey mw, v, get_field h0 (sessionOptions loaded))])
    \<and> (cookies_get host (sessionKey mw) (get_field h0 (sessionOptions c0)) = None \<longrightarrow>
          session loaded = SObj \<lparr>isNew = True, props = []\<rparr>
          \<and> cookies_written (fst (onPreEnd host mw h0 loaded)) = [(sessionKey mw, ''e30='')])"
proof -
  have init: "session c0 = SVal (JBool False)" "cookies_set_calls c0 = []"
    by (simp_all add: c0_def cookieSession_def)
  obtain r1 where g: "session_get host mw h0 c0 = (loaded, r1)"
    by (metis loaded_def prod.collapse)
  have calls: "cookies_set_calls loaded = []"
    using session_get_frame [OF g] init by simp
  have nf: "session loaded \<noteq> SVal (JBool False)" using g by (rule session_get_touched)
  have wf: "wf_var (session loaded)" using session_get_wf [OF g] init by simp
  from session_get_first [OF init(1) g]
  have nn: "session loaded \<noteq> SVal JNull" "session loaded \<noteq> SVal JUndefined" by auto
  from encode_wf_var [OF wf] obtain tx where
    e: "encode (body_of (session loaded)) = Inr (b64_encode tx)" by blast
  have a: "fst (run host mw (replicate (Suc n) Read) (c0, h0)) = (loaded, h0)"
    by (simp only: run_reads fst_conv loaded_def)
  have b: "cookies_set_calls (fst (onPreEnd host mw h0 loaded))
      = [(sessionKey mw, b64_encode tx, get_field h0 (sessionOptions loaded))]"
    using nf nn e calls by (auto simp: onPreEnd_def cb_def Let_def split: option.splits)
  have c: "session loaded = SObj \<lparr>isNew = True, props = []\<rparr>
       \<and> cookies_written (fst (onPreEnd host mw h0 loaded)) = [(sessionKey mw, ''e30='')]"
    if "cookies_get host (sessionKey mw) (get_field h0 (sessionOptions c0)) = None"
  proof -
    from that init have s: "session loaded = SObj \<lparr>isNew = True, props = []\<rparr>"
      by (simp add: loaded_def session_get_def Session_def)
    with e have "b64_encode tx = ''e30=''" by (simp add: encode_empty)
    with b s show ?thesis by (simp add: cookies_written_def)
  qed
  from a b c e show ?thesis by blast
qed

lemma decode_hi: "decode hi_cookie = Inr (JObj [(''message'', JStr ''hi'')])"
  unfolding hi_cookie_def by code_simp

lemma Session_hi: "Session (JObj [(''message'', JStr ''hi'')]) = Inr \<lparr>isNew = False, props = [(''message'', JStr ''hi'')]\<rparr>"
  by code_simp

lemma encode_hi: "encode (JObj [(''message'', JStr ''hi'')]) = Inr hi_cookie"
  unfolding hi_cookie_def by code_simp

lemma hi_nonempty: "hi_cookie \<noteq> []"
  by (simp add: hi_cookie_def)

lemma default_key: "sessionKey default_mw = JStr ''toa:sess''"
  by (simp add: default_mw_eq)

lemma cookieSession_default:
  "cookieSession default_mw default_heap =
     (\<lparr>session = SVal (JBool False), sessionOptions = 1, cookies_set_calls = [], cb_calls = 0\<rparr>,
      default_heap @ [\<lparr>own = [], proto = Some 0\<rparr>])"
  by (simp add: cookieSession_def default_mw_eq default_heap_eq)

theorem read_only_request_sets_cookie_witness:
  "cookies_written (fst (request quiet_host default_mw [Read, Read] default_heap))
     = [(JStr ''toa:sess'', ''e30='')]
   \<and> cookies_written (fst (request (cookie_host hi_cookie) default_mw [Read] default_heap))
     = [(JStr ''toa:sess'', hi_cookie)]"
proof -
  let ?c0 = "fst (cookieSession default_mw default_heap)"
  let ?h0 = "snd (cookieSession default_mw default_heap)"
  have n: "cookies_get quiet_host (sessionKey default_mw) (get_field ?h0 (sessionOptions ?c0)) = None"
    by (simp add: quiet_host_def)
  have "cookies_written (fst (request quiet_host default_mw (replicate (Suc 1) Read) default_heap))
     = [(JStr ''toa:sess'', ''e30='')]"
    using read_only_request_sets_cookie [where host = quiet_host and mw = default_mw and h = default_heap and n = 1] n
    by (simp add: request_def case_prod_unfold default_key del: replicate.simps)
  moreover have "cookies_written (fst (request (cookie_host hi_cookie) default_mw (replicate (Suc 0) Read) default_heap))
     = [(JStr ''toa:sess'', hi_cookie)]"
  proof -
    have l: "session (fst (session_get (cookie_host hi_cookie) default_mw ?h0 ?c0))
        = SObj \<lparr>isNew = False, props = [(''message'', JStr ''hi'')]\<rparr>"
      by (simp add: cookieSession_default session_get_def cookie_host_def decode_hi Session_hi hi_nonempty)
    show ?thesis
      using read_only_request_sets_cookie [where host = "cookie_host hi_cookie" and mw = default_mw and h = default_heap and n = 0]
      by (auto simp: request_def case_prod_unfold l encode_hi cookies_written_def default_key
          simp del: replicate.simps)
  qed
  ultimately show ?thesis by (simp add: numeral_2_eq_2)
qed

lemma run_assign_empty:
  "run quiet_host default_mw [Assign (JObj [])] (cookieSession default_mw default_heap)
   = ((\<lparr>session = SObj \<lparr>isNew = False, props = []\<rparr>, sessionOptions = 1,
        cookies_set_calls = [], cb_calls = 0\<rparr>,
       default_heap @ [\<lparr>own = [], proto = Some 0\<rparr>]), Inr ())"
  by (simp add: cookieSession_default session_set_def Session_def)

text \<open>
  C3. The code at the input of the repository's test \<^verbatim>\<open>should not Set-Cookie when set {}\<close>:
  after \<^verbatim>\<open>this.session = {}\<close> the hook does call \<^verbatim>\<open>cookies.set\<close>, with the encoding
  of the empty object.
\<close>

theorem assign_empty_object_sets_cookie:
  "cookies_written (fst (request quiet_host default_mw [Assign (JObj [])] default_heap))
     = [(JStr ''toa:sess'', ''e30='')]"
  unfolding request_def run_assign_empty
  by (simp add: onPreEnd_def cb_def cookies_written_def default_mw_eq encode_empty quiet_host_def)



















section \<open>Properties of the option objects\<close>

lemma set_field_frame:
  "length h \<le> length (set_field h a k v)
   \<and> (\<forall>a'. a' < length h \<and> a' \<noteq> a \<longrightarrow> set_field h a k v ! a' = h ! a')"
  by (auto simp: set_field_def nth_append split: jsval.splits)

lemma step_heap_frame:
  "step host mw (c, h) a = ((c', h'), r) \<Longrightarrow>
     length h \<le> length h'
     \<and> (\<forall>a'. a' < length h \<and> a' \<noteq> sessionOptions c \<longrightarrow> h' ! a' = h ! a')"
proof (induction a arbitrary: c' h' r)
  case Read
  then show ?case by (auto split: prod.splits sum.splits)
next
  case (Assign v)
  then show ?case by (auto split: prod.splits)
next
  case (PutField k v)
  then show ?case by (auto split: prod.splits sum.splits)
next
  case (SetOption k v)
  then show ?case using set_field_frame [of h "sessionOptions c" k v] by auto
next
  case (Try a)
  then show ?case by (cases "step host mw (c, h) a") auto
qed

lemma run_heap_frame:
  "run host mw as (c, h) = ((c', h'), r) \<Longrightarrow>
     length h \<le> length h'
     \<and> (\<forall>a'. a' < length h \<and> a' \<noteq> sessionOptions c \<longrightarrow> h' ! a' = h ! a')"
proof (induction as arbitrary: c h)
  case Nil
  then show ?case by simp
next
  case (Cons a as)
  obtain c1 h1 r1 where s: "step host mw (c, h) a = ((c1, h1), r1)"
    by (metis surj_pair)
  note f = step_heap_frame [OF s] step_frame [OF s]
  show ?case
  proof (cases r1)
    case (Inl e)
    with Cons.prems s f show ?thesis by simp
  next
    case (Inr u)
    with Cons.prems s have "run host mw as (c1, h1) = ((c', h'), r)" by simp
    from Cons.IH [OF this] f show ?thesis by auto
  qed
qed

lemma chain_get_plain:
  "b < length h \<Longrightarrow> proto (h ! b) = None \<Longrightarrow>
     chain_get (Suc n) h b k = (case map_of (own (h ! b)) k of Some v \<Rightarrow> v | None \<Rightarrow> JUndefined)"
  by (simp split: option.splits)

lemma get_field_plain:
  assumes "b < length h" "proto (h ! b) = None"
  shows "get_field h b k = (case map_of (own (h ! b)) k of Some v \<Rightarrow> v | None \<Rightarrow> JUndefined)"
proof (cases "length h")
  case 0
  with assms(1) show ?thesis by simp
next
  case (Suc n)
  then have "get_field h b k = chain_get (Suc n) h b k" by (simp only: get_field_def)
  then show ?thesis by (simp only: chain_get_plain [OF assms])
qed

lemma get_field_derived:
  assumes "a < length h" "proto (h ! a) = Some b" "b < length h" "proto (h ! b) = None"
  shows "get_field h a k =
    (case map_of (own (h ! a)) k of
       Some v \<Rightarrow> v
     | None \<Rightarrow> (case map_of (own (h ! b)) k of Some v \<Rightarrow> v | None \<Rightarrow> JUndefined))"
proof -
  from assms have "a \<noteq> b" by auto
  with assms(1,3) have "1 < length h" by linarith
  then have "length h = Suc (Suc (length h - 2))" by simp
  then obtain n where n: "length h = Suc (Suc n)" ..
  have "get_field h a k = chain_get (Suc (Suc n)) h a k" by (simp only: get_field_def n)
  also have "\<dots> = (case map_of (own (h ! a)) k of
       Some v \<Rightarrow> v | None \<Rightarrow> chain_get (Suc n) h b k)"
    using assms(1,2) by (simp split: option.splits)
  finally show ?thesis by (simp only: chain_get_plain [OF assms(3,4)])
qed

text \<open>
  C9. Let the configuration be a plain object on the heap and let two requests be open.
  Whatever the handler of the first request does, assignments to fields of its
  \<^verbatim>\<open>sessionOptions\<close> included, the configuration object is left as it was, and so is
  what the configuration, the \<^verbatim>\<open>sessionOptions\<close> of the other request and the
  \<^verbatim>\<open>sessionOptions\<close> of a later request read for every field.
\<close>

theorem sessionOptions_mutation_frame:
  assumes base: "options mw < length h" "proto (h ! options mw) = None"
    and r1: "cookieSession mw h = (c1, h1)"
    and r2: "cookieSession mw h1 = (c2, h2)"
    and run: "run host mw as (c1, h2) = ((c1', h'), r)"
    and r3: "cookieSession mw h' = (c3, h3)"
  shows "h' ! options mw = h ! options mw
    \<and> get_field h' (options mw) k = get_field h (options mw) k
    \<and> get_field h' (sessionOptions c2) k = get_field h (options mw) k
    \<and> get_field h3 (sessionOptions c3) k = get_field h (options mw) k"
proof (intro conjI)
  let ?b = "options mw"
  from r1 r2 have a: "sessionOptions c1 = length h" "sessionOptions c2 = Suc (length h)"
    "h2 = h @ [\<lparr>own = [], proto = Some ?b\<rparr>, \<lparr>own = [], proto = Some ?b\<rparr>]"
    by (auto simp: cookieSession_def)
  from run_heap_frame [OF run] a
  have len: "Suc (Suc (length h)) \<le> length h'"
    and fr: "\<And>a'. a' < Suc (Suc (length h)) \<Longrightarrow> a' \<noteq> length h \<Longrightarrow> h' ! a' = h2 ! a'"
    by auto
  from fr [of ?b] base a show b: "h' ! ?b = h ! ?b"
    by (simp add: nth_append)
  from fr [of "Suc (length h)"] a have o2: "h' ! Suc (length h) = \<lparr>own = [], proto = Some ?b\<rparr>"
    by (simp add: nth_append)
  from base len have bl: "?b < length h'" by simp
  from b base have bp: "proto (h' ! ?b) = None" by simp
  show "get_field h' ?b k = get_field h ?b k"
    by (simp add: get_field_plain [OF bl bp] get_field_plain [OF base] b)
  have "get_field h' (Suc (length h)) k = get_field h ?b k"
    using len o2 bl bp
    by (subst get_field_derived [where b = ?b]) (simp_all add: get_field_plain [OF base] b)
  with a show "get_field h' (sessionOptions c2) k = get_field h ?b k" by simp
  from r3 have c3: "sessionOptions c3 = length h'" "h3 = h' @ [\<lparr>own = [], proto = Some ?b\<rparr>]"
    by (auto simp: cookieSession_def)
  have "get_field h3 (length h') k = get_field h ?b k"
    using bl bp c3
    by (subst get_field_derived [where b = ?b])
       (simp_all add: get_field_plain [OF base] b nth_append)
  with c3 show "get_field h3 (sessionOptions c3) k = get_field h ?b k" by simp
qed

lemma maxage_mw_eq: "maxage_mw = \<lparr>options = 0, sessionKey = JStr ''my.session''\<rparr>"
  unfolding maxage_mw_def by code_simp

lemma maxage_heap_eq:
  "maxage_heap =
     [\<lparr>own = [(''maxAge'', JNum 3600000 0), (''name'', JStr ''my.session''),
              (''overwrite'', JBool True), (''httpOnly'', JBool True), (''signed'', JBool True)],
       proto = None\<rparr>]"
  unfolding maxage_heap_def by code_simp

lemma maxage_run:
  "run quiet_host maxage_mw [SetOption ''maxAge'' (JNum 6500000 0)]
     (\<lparr>session = SVal (JBool False), sessionOptions = 1, cookies_set_calls = [], cb_calls = 0\<rparr>,
      maxage_heap @ [\<lparr>own = [], proto = Some 0\<rparr>, \<lparr>own = [], proto = Some 0\<rparr>])
   = ((\<lparr>session = SVal (JBool False), sessionOptions = 1, cookies_set_calls = [], cb_calls = 0\<rparr>,
       maxage_heap @ [\<lparr>own = [(''maxAge'', JNum 6500000 0)], proto = Some 0\<rparr>,
                      \<lparr>own = [], proto = Some 0\<rparr>]), Inr ())"
  by (simp add: maxage_heap_eq set_field_def put_prop_def array_index_def is_digit_def code_def)

lemma maxage_own_view:
  "get_field (maxage_heap @ [\<lparr>own = [(''maxAge'', JNum 6500000 0)], proto = Some 0\<rparr>,
                             \<lparr>own = [], proto = Some 0\<rparr>]) (Suc 0) ''maxAge'' = JNum 6500000 0"
  unfolding maxage_heap_eq by code_simp

theorem sessionOptions_mutation_frame_witness:
  "get_field (maxage_heap @ [\<lparr>own = [(''maxAge'', JNum 6500000 0)], proto = Some 0\<rparr>,
                             \<lparr>own = [], proto = Some 0\<rparr>]) 1 ''maxAge'' = JNum 6500000 0
   \<and> get_field (maxage_heap @ [\<lparr>own = [(''maxAge'', JNum 6500000 0)], proto = Some 0\<rparr>,
                             \<lparr>own = [], proto = Some 0\<rparr>]) 0 ''maxAge'' = JNum 3600000 0
   \<and> get_field (maxage_heap @ [\<lparr>own = [(''maxAge'', JNum 6500000 0)], proto = Some 0\<rparr>,
                             \<lparr>own = [], proto = Some 0\<rparr>]) 2 ''maxAge'' = JNum 3600000 0"
proof -
  have b: "options maxage_mw < length maxage_heap" "proto (maxage_heap ! options maxage_mw) = None"
    by (simp_all add: maxage_mw_eq maxage_heap_eq)
  have c1: "cookieSession maxage_mw maxage_heap
      = (\<lparr>session = SVal (JBool False), sessionOptions = 1, cookies_set_calls = [], cb_calls = 0\<rparr>,
         maxage_heap @ [\<lparr>own = [], proto = Some 0\<rparr>])"
    by (simp add: cookieSession_def maxage_mw_eq maxage_heap_eq)
  have c2: "cookieSession maxage_mw (maxage_heap @ [\<lparr>own = [], proto = Some 0\<rparr>])
      = (\<lparr>session = SVal (JBool False), sessionOptions = 2, cookies_set_calls = [], cb_calls = 0\<rparr>,
         maxage_heap @ [\<lparr>own = [], proto = Some 0\<rparr>, \<lparr>own = [], proto = Some 0\<rparr>])"
    by (simp add: cookieSession_def maxage_mw_eq maxage_heap_eq)
  have base: "get_field maxage_heap 0 ''maxAge'' = JNum 3600000 0"
    unfolding maxage_heap_eq by code_simp
  from sessionOptions_mutation_frame [OF b c1 c2 maxage_run surjective_pairing, of "''maxAge''"]
  show ?thesis by (simp add: maxage_own_view base maxage_mw_eq)
qed

section \<open>Properties of decoding and of the session constructor\<close>

























lemma decode_failed: "decode_body t = Inl e \<Longrightarrow> decode t = Inr JUndefined"
  by (simp add: decode_def)

text \<open>
  C6. \<^verbatim>\<open>decode\<close> returns a value for every string and never raises an exception; when
  the decoding or the parsing fails it returns \<^verbatim>\<open>undefined\<close>, and the first read of the
  session property of a request with such a cookie gives a new empty session without an
  exception.
\<close>

theorem decode_never_throws:
  "(\<exists>v. decode t = Inr v)
   \<and> (isl (decode_body t) \<longrightarrow> decode t = Inr JUndefined)
   \<and> (isl (decode_body t) \<and> session c = SVal (JBool False)
        \<and> cookies_get host (sessionKey mw) (get_field h (sessionOptions c)) = Some t \<longrightarrow>
        session_get host mw h c
          = (c\<lparr>session := SObj \<lparr>isNew = True, props = []\<rparr>\<rparr>, Inr (SObj \<lparr>isNew = True, props = []\<rparr>)))"
proof (intro conjI impI)
  show "\<exists>v. decode t = Inr v" by (rule decode_total)
next
  assume "isl (decode_body t)"
  then show "decode t = Inr JUndefined" by (auto simp: isl_def decode_failed)
next
  assume a: "isl (decode_body t) \<and> session c = SVal (JBool False)
        \<and> cookies_get host (sessionKey mw) (get_field h (sessionOptions c)) = Some t"
  then have d: "decode t = Inr JUndefined" by (auto simp: isl_def decode_failed)
  with a show "session_get host mw h c
          = (c\<lparr>session := SObj \<lparr>isNew = True, props = []\<rparr>\<rparr>, Inr (SObj \<lparr>isNew = True, props = []\<rparr>))"
    by (auto simp: session_get_def Session_def Let_def)
qed

lemma decode_body_invalid: "decode_body ''invalid_string'' = Inl SyntaxError"
  by code_simp

lemma decode_body_truncated: "decode_body ''eyJtZXNzYWdlIjoiaGki'' = Inl SyntaxError"
  by code_simp

theorem decode_never_throws_witness:
  "decode ''invalid_string'' = Inr JUndefined
   \<and> decode ''eyJtZXNzYWdlIjoiaGki'' = Inr JUndefined
   \<and> session_get (cookie_host ''invalid_string'') default_mw
        (snd (cookieSession default_mw default_heap)) (fst (cookieSession default_mw default_heap))
      = ((fst (cookieSession default_mw default_heap))\<lparr>session := SObj \<lparr>isNew = True, props = []\<rparr>\<rparr>,
         Inr (SObj \<lparr>isNew = True, props = []\<rparr>))"
  using decode_never_throws [of "''invalid_string''" "fst (cookieSession default_mw default_heap)"
      "cookie_host ''invalid_string''" default_mw "snd (cookieSession default_mw default_heap)"]
    decode_never_throws [of "''eyJtZXNzYWdlIjoiaGki''"]
  by (simp add: decode_body_invalid decode_body_truncated cookie_host_def cookieSession_def)













section \<open>The round trip through the cookie\<close>















































lemma ends_value_simps [simp]:
  "ends_value []" "ends_value (CHR '','' # r)" "ends_value (CHR '']'' # r)"
  "ends_value (CHR ''}'' # r)"
  by (simp_all add: ends_value_def)











lemma object_start:
  "foldl pstep (PObjStart st) (TVal (JStr k) # ts) = foldl pstep (PName [] st) (TVal (JStr k) # ts)"
  by simp















end
